theory Spec2Isabelle
  imports Complex_Main
begin

section \<open>Values exchanged with the HTTP host\<close>

text \<open>
  What \<^verbatim>\<open>req.get_json()\<close> hands to a handler is a Python value built by the JSON decoder:
  \<^verbatim>\<open>None\<close>, a bool, an int, a float, a str, a list or a dict. \<open>JFloat\<close> carries the value of a
  finite float. A dict is kept as its list of items; \<^verbatim>\<open>d.get(k)\<close> is \<open>map_of\<close> on that list.
\<close>

datatype json =
    JNull
  | JBool bool
  | JInt int
  | JFloat real
  | JStr string
  | JArr "json list"
  | JObj "(string \<times> json) list"

text \<open>Python truthiness, as tested by \<^verbatim>\<open>not name\<close>.\<close>

fun truthy :: "json \<Rightarrow> bool" where
  "truthy JNull = False"
| "truthy (JBool b) = b"
| "truthy (JInt i) = (i \<noteq> 0)"
| "truthy (JFloat r) = (r \<noteq> 0)"
| "truthy (JStr s) = (s \<noteq> [])"
| "truthy (JArr xs) = (xs \<noteq> [])"
| "truthy (JObj kvs) = (kvs \<noteq> [])"

text \<open>
  A request as the handlers read it: \<open>get_json\<close> is the decoded body, \<open>None\<close> when the body
  is not valid JSON (the call then raises \<^verbatim>\<open>ValueError\<close>); \<open>route_params\<close> is the dict of
  path parameters.
\<close>

record HttpRequest =
  get_json :: "json option"
  route_params :: "(string \<times> string) list"

text \<open>
  A response body is either a plain text or the text \<^verbatim>\<open>json.dumps(v)\<close> of a value \<open>v\<close>,
  kept as \<open>Dumps v\<close>.
\<close>

datatype payload = Text string | Dumps json

record HttpResponse =
  body :: payload
  status_code :: int
  mimetype :: string

definition func_HttpResponse :: "payload \<Rightarrow> int \<Rightarrow> HttpResponse" where
  "func_HttpResponse b c = \<lparr>body = b, status_code = c, mimetype = ''text/plain''\<rparr>"

text \<open>\<^verbatim>\<open>f"{item_id}"\<close> for a path parameter that is a str or \<^verbatim>\<open>None\<close>.\<close>

fun py_str :: "string option \<Rightarrow> string" where
  "py_str None = ''None''"
| "py_str (Some s) = s"

section \<open>Exceptions\<close>

text \<open>
  The classes that can reach the two \<^verbatim>\<open>except\<close> clauses of a handler. The clause
  \<^verbatim>\<open>except psycopg2.DatabaseError\<close> takes \<open>DatabaseError\<close> and its six subclasses; the pool's
  \<open>PoolError\<close> and the driver's \<open>InterfaceError\<close> derive from \<^verbatim>\<open>psycopg2.Error\<close> only and fall
  to \<^verbatim>\<open>except Exception\<close>, as every other class does. An exception carries its message.
\<close>

datatype exn_class =
    ValueError | AttributeError | TypeError | IndexError
  | PoolError | InterfaceError
  | DatabaseError | DataError | OperationalError | IntegrityError
  | InternalError | ProgrammingError | NotSupportedError
  | OtherException

datatype exn = Exn exn_class string

fun is_DatabaseError :: "exn_class \<Rightarrow> bool" where
  "is_DatabaseError DatabaseError = True"
| "is_DatabaseError DataError = True"
| "is_DatabaseError OperationalError = True"
| "is_DatabaseError IntegrityError = True"
| "is_DatabaseError InternalError = True"
| "is_DatabaseError ProgrammingError = True"
| "is_DatabaseError NotSupportedError = True"
| "is_DatabaseError _ = False"

fun class_of :: "exn \<Rightarrow> exn_class" where
  "class_of (Exn c m) = c"

datatype 'a result = Return 'a | Raise exn

section \<open>Process state: the table and the pool\<close>

text \<open>
  A row of \<^verbatim>\<open>items(id, name, description)\<close>. The column values are kept as the values that
  were bound to the statement's placeholders.
\<close>

type_synonym row = "int \<times> json \<times> json"

text \<open>
  The pool object: its two bounds, the connection arguments it was built with, the number of
  idle connections it holds and the number it has lent out.
\<close>

record pool =
  minconn :: nat
  maxconn :: nat
  kwargs :: "(string \<times> string option) list"
  idle :: nat
  used :: nat

text \<open>
  \<open>items\<close> is the committed table, \<open>items_id_seq\<close> the next value of the id sequence, \<open>txn\<close>
  the uncommitted table of the connection that the running handler has checked out
  (\<open>None\<close> when that connection has changed nothing), \<open>db_pool\<close> the module-level pool.
\<close>

record state =
  items :: "row list"
  items_id_seq :: int
  txn :: "row list option"
  db_pool :: pool

definition working :: "state \<Rightarrow> row list" where
  "working s = (case txn s of None \<Rightarrow> items s | Some w \<Rightarrow> w)"

text \<open>
  What lies outside the program: for each kind of call into the driver, the exception it
  raises this time (if any), and how the storage reads a text as an integer key (\<open>None\<close>
  when it rejects the text).
\<close>

datatype dbop = Getconn | Cursor | Execute | Fetchone | Fetchall | Commit | Close | Putconn

record backend =
  fails :: "dbop \<Rightarrow> exn option"
  integer_in :: "string \<Rightarrow> int option"

section \<open>Sequencing with exceptions\<close>

type_synonym 'a action = "state \<Rightarrow> 'a result \<times> state"

definition ret :: "'a \<Rightarrow> 'a action" where
  "ret x s = (Return x, s)"

definition throw :: "exn \<Rightarrow> 'a action" where
  "throw e s = (Raise e, s)"

definition bind_action :: "'a action \<Rightarrow> ('a \<Rightarrow> 'b action) \<Rightarrow> 'b action" where
  "bind_action m f s = (case m s of (Return x, s') \<Rightarrow> f x s' | (Raise e, s') \<Rightarrow> (Raise e, s'))"

definition attempt :: "backend \<Rightarrow> dbop \<Rightarrow> 'a action \<Rightarrow> 'a action" where
  "attempt be op m s = (case fails be op of Some e \<Rightarrow> (Raise e, s) | None \<Rightarrow> m s)"

section \<open>Configuration and the pool\<close>

text \<open>
  \<^verbatim>\<open>os.getenv(k)\<close> and \<^verbatim>\<open>os.getenv(k, default)\<close> on the process environment.
\<close>

definition os_getenv :: "(string \<Rightarrow> string option) \<Rightarrow> string \<Rightarrow> string option" where
  "os_getenv environ k = environ k"

definition os_getenv_default :: "(string \<Rightarrow> string option) \<Rightarrow> string \<Rightarrow> string \<Rightarrow> string" where
  "os_getenv_default environ k d = (case environ k of None \<Rightarrow> d | Some v \<Rightarrow> v)"

definition DB_CONFIG :: "(string \<Rightarrow> string option) \<Rightarrow> (string \<times> string option) list" where
  "DB_CONFIG environ =
     [(''host'', os_getenv environ ''DB_HOST''),
      (''database'', os_getenv environ ''DB_NAME''),
      (''user'', os_getenv environ ''DB_USER''),
      (''password'', os_getenv environ ''DB_PASSWORD''),
      (''port'', Some (os_getenv_default environ ''DB_PORT'' ''5432''))]"

text \<open>
  \<^verbatim>\<open>SimpleConnectionPool(minconn, maxconn, **kwargs)\<close> opens \<open>minconn\<close> connections and lends
  none.
\<close>

definition SimpleConnectionPool ::
  "nat \<Rightarrow> nat \<Rightarrow> (string \<times> string option) list \<Rightarrow> pool" where
  "SimpleConnectionPool lo hi kw =
     \<lparr>minconn = lo, maxconn = hi, kwargs = kw, idle = lo, used = 0\<rparr>"

definition db_pool_init :: "(string \<Rightarrow> string option) \<Rightarrow> pool" where
  "db_pool_init environ = SimpleConnectionPool 1 10 (DB_CONFIG environ)"

text \<open>
  \<^verbatim>\<open>getconn\<close>: an idle connection if there is one; otherwise a new one unless \<open>maxconn\<close> are
  lent out already, which raises \<open>PoolError\<close>. The connection handed out has no open changes.
\<close>

definition getconn :: "backend \<Rightarrow> unit action" where
  "getconn be = attempt be Getconn (\<lambda>s.
     let p = db_pool s in
     if 0 < idle p
     then (Return (), s\<lparr>txn := None, db_pool := p\<lparr>idle := idle p - 1, used := used p + 1\<rparr>\<rparr>)
     else if used p = maxconn p
     then (Raise (Exn PoolError ''connection pool exhausted''), s)
     else (Return (), s\<lparr>txn := None, db_pool := p\<lparr>used := used p + 1\<rparr>\<rparr>))"

text \<open>
  \<^verbatim>\<open>putconn\<close>: the connection is rolled back and kept while fewer than \<open>minconn\<close> are idle,
  closed otherwise; either way it is no longer lent out.
\<close>

definition putconn :: "backend \<Rightarrow> unit action" where
  "putconn be = attempt be Putconn (\<lambda>s.
     let p = db_pool s in
     (Return (), s\<lparr>txn := None,
        db_pool := p\<lparr>idle := (if idle p < minconn p then idle p + 1 else idle p),
                     used := used p - 1\<rparr>\<rparr>))"

text \<open>
  \<^verbatim>\<open>get_db_connection\<close> logs and re-raises whatever \<^verbatim>\<open>getconn\<close> raises.
\<close>

definition get_db_connection :: "backend \<Rightarrow> unit action" where
  "get_db_connection be = getconn be"

text \<open>Connections the pool can still lend: \<open>maxconn\<close> less those lent out.\<close>

definition available :: "state \<Rightarrow> nat" where
  "available s = maxconn (db_pool s) - used (db_pool s)"

section \<open>The driver calls the handlers make\<close>

text \<open>The five statements of the program, with the values bound to their placeholders.\<close>

datatype sql =
    INSERT_items json json
  | SELECT_item "string option"
  | UPDATE_items json json "string option"
  | DELETE_items "string option"
  | SELECT_items

fun tuple_of :: "row \<Rightarrow> json list" where
  "tuple_of (i, n, d) = [JInt i, n, d]"

text \<open>
  The value compared with the id column: \<^verbatim>\<open>None\<close> is bound as NULL, which equals no id; a
  text is read by the storage as an integer, and a text it rejects fails the statement.
\<close>

definition bind_id :: "backend \<Rightarrow> string option \<Rightarrow> int option result" where
  "bind_id be item_id =
     (case item_id of
        None \<Rightarrow> Return None
      | Some t \<Rightarrow>
          (case integer_in be t of
             None \<Rightarrow> Raise (Exn DataError ''invalid input syntax for type integer'')
           | Some k \<Rightarrow> Return (Some k)))"

text \<open>
  \<^verbatim>\<open>cursor.execute\<close>: the result set is returned, changes go to the connection's uncommitted
  table. The id sequence advances at once, whether or not the insert is committed later.
\<close>

fun run_sql :: "backend \<Rightarrow> sql \<Rightarrow> json list list action" where
  "run_sql be (INSERT_items n d) s =
     (let i = items_id_seq s in
      (Return [[JInt i]], s\<lparr>items_id_seq := i + 1, txn := Some (working s @ [(i, n, d)])\<rparr>))"
| "run_sql be (SELECT_item item_id) s =
     (case bind_id be item_id of
        Raise e \<Rightarrow> (Raise e, s)
      | Return k \<Rightarrow> (Return (map tuple_of (filter (\<lambda>r. Some (fst r) = k) (working s))), s))"
| "run_sql be (UPDATE_items n d item_id) s =
     (case bind_id be item_id of
        Raise e \<Rightarrow> (Raise e, s)
      | Return k \<Rightarrow>
          (Return [], s\<lparr>txn := Some (map (\<lambda>r. if Some (fst r) = k then (fst r, n, d) else r)
                                        (working s))\<rparr>))"
| "run_sql be (DELETE_items item_id) s =
     (case bind_id be item_id of
        Raise e \<Rightarrow> (Raise e, s)
      | Return k \<Rightarrow> (Return [], s\<lparr>txn := Some (filter (\<lambda>r. Some (fst r) \<noteq> k) (working s))\<rparr>))"
| "run_sql be SELECT_items s = (Return (map tuple_of (working s)), s)"

definition conn_cursor :: "backend \<Rightarrow> unit action" where
  "conn_cursor be = attempt be Cursor (ret ())"

definition cursor_execute :: "backend \<Rightarrow> sql \<Rightarrow> json list list action" where
  "cursor_execute be q = attempt be Execute (run_sql be q)"

definition cursor_fetchone :: "backend \<Rightarrow> json list list \<Rightarrow> json list option action" where
  "cursor_fetchone be rs =
     attempt be Fetchone (ret (case rs of [] \<Rightarrow> None | t # _ \<Rightarrow> Some t))"

definition cursor_fetchall :: "backend \<Rightarrow> json list list \<Rightarrow> json list list action" where
  "cursor_fetchall be rs = attempt be Fetchall (ret rs)"

definition conn_commit :: "backend \<Rightarrow> unit action" where
  "conn_commit be = attempt be Commit (\<lambda>s. (Return (), s\<lparr>items := working s, txn := None\<rparr>))"

definition cursor_close :: "backend \<Rightarrow> unit action" where
  "cursor_close be = attempt be Close (ret ())"

text \<open>Subscripting a fetched tuple, and the \<^verbatim>\<open>None\<close> that \<^verbatim>\<open>fetchone\<close> may return.\<close>

definition subscript :: "json list \<Rightarrow> nat \<Rightarrow> json action" where
  "subscript t i =
     (if i < length t then ret (t ! i)
      else throw (Exn IndexError ''tuple index out of range''))"

definition subscript_opt :: "json list option \<Rightarrow> nat \<Rightarrow> json action" where
  "subscript_opt item i =
     (case item of
        None \<Rightarrow> throw (Exn TypeError ''NoneType object is not subscriptable'')
      | Some t \<Rightarrow> subscript t i)"

text \<open>\<^verbatim>\<open>req_body.get(k)\<close>: only a dict has the method.\<close>

definition body_get :: "json \<Rightarrow> string \<Rightarrow> json action" where
  "body_get req_body k =
     (case req_body of
        JObj kvs \<Rightarrow> ret (case map_of kvs k of None \<Rightarrow> JNull | Some v \<Rightarrow> v)
      | _ \<Rightarrow> throw (Exn AttributeError ''object has no attribute get''))"

definition req_get_json :: "HttpRequest \<Rightarrow> json action" where
  "req_get_json req =
     (case get_json req of
        None \<Rightarrow> throw (Exn ValueError ''HTTP request does not contain valid JSON data'')
      | Some v \<Rightarrow> ret v)"

section \<open>The handlers\<close>

text \<open>
  Each handler is one \<^verbatim>\<open>try\<close> block followed by the same two \<^verbatim>\<open>except\<close> clauses. The block
  is modelled by a \<open>_try\<close> action, line by line; an exception leaves the state as the calls
  before it left it. The calls to \<^verbatim>\<open>logging.error\<close> write to the server log only and are
  not modelled.
\<close>

definition except_clauses :: "HttpResponse result \<times> state \<Rightarrow> HttpResponse \<times> state" where
  "except_clauses out =
     (case out of
        (Return r, s) \<Rightarrow> (r, s)
      | (Raise e, s) \<Rightarrow>
          (if is_DatabaseError (class_of e)
           then (func_HttpResponse (Text ''Database error occurred.'') 500, s)
           else (func_HttpResponse (Text ''An unexpected error occurred.'') 500, s)))"

definition missing_fields :: string where
  "missing_fields = ''Missing 'name' or 'description' in the request body.''"

definition create_item_try :: "backend \<Rightarrow> HttpRequest \<Rightarrow> HttpResponse action" where
  "create_item_try be req =
     bind_action (req_get_json req) (\<lambda>req_body.
     bind_action (body_get req_body ''name'') (\<lambda>name.
     bind_action (body_get req_body ''description'') (\<lambda>description.
     if \<not> truthy name \<or> \<not> truthy description
     then ret (func_HttpResponse (Text missing_fields) 400)
     else
     bind_action (get_db_connection be) (\<lambda>conn.
     bind_action (conn_cursor be) (\<lambda>cursor.
     bind_action (cursor_execute be (INSERT_items name description)) (\<lambda>rs.
     bind_action (cursor_fetchone be rs) (\<lambda>fetched.
     bind_action (subscript_opt fetched 0) (\<lambda>item_id.
     bind_action (conn_commit be) (\<lambda>_.
     bind_action (cursor_close be) (\<lambda>_.
     bind_action (putconn be) (\<lambda>_.
     ret (func_HttpResponse
            (Dumps (JObj [(''id'', item_id), (''message'', JStr ''Item created successfully'')]))
            201))))))))))))"

definition create_item :: "backend \<Rightarrow> HttpRequest \<Rightarrow> state \<Rightarrow> HttpResponse \<times> state" where
  "create_item be req s = except_clauses (create_item_try be req s)"

definition read_item_try :: "backend \<Rightarrow> HttpRequest \<Rightarrow> HttpResponse action" where
  "read_item_try be req =
     (let item_id = map_of (route_params req) ''id'' in
      bind_action (get_db_connection be) (\<lambda>conn.
      bind_action (conn_cursor be) (\<lambda>cursor.
      bind_action (cursor_execute be (SELECT_item item_id)) (\<lambda>rs.
      bind_action (cursor_fetchone be rs) (\<lambda>item.
      bind_action (cursor_close be) (\<lambda>_.
      bind_action (putconn be) (\<lambda>_.
      if item \<noteq> None \<and> item \<noteq> Some []
      then
        bind_action (subscript_opt item 0) (\<lambda>i.
        bind_action (subscript_opt item 1) (\<lambda>n.
        bind_action (subscript_opt item 2) (\<lambda>d.
        ret (func_HttpResponse
               (Dumps (JObj [(''id'', i), (''name'', n), (''description'', d)])) 200))))
      else ret (func_HttpResponse (Text ''Item not found.'') 404))))))))"

definition read_item :: "backend \<Rightarrow> HttpRequest \<Rightarrow> state \<Rightarrow> HttpResponse \<times> state" where
  "read_item be req s = except_clauses (read_item_try be req s)"

definition update_item_try :: "backend \<Rightarrow> HttpRequest \<Rightarrow> HttpResponse action" where
  "update_item_try be req =
     (let item_id = map_of (route_params req) ''id'' in
      bind_action (req_get_json req) (\<lambda>req_body.
      bind_action (body_get req_body ''name'') (\<lambda>name.
      bind_action (body_get req_body ''description'') (\<lambda>description.
      if \<not> truthy name \<or> \<not> truthy description
      then ret (func_HttpResponse (Text missing_fields) 400)
      else
      bind_action (get_db_connection be) (\<lambda>conn.
      bind_action (conn_cursor be) (\<lambda>cursor.
      bind_action (cursor_execute be (UPDATE_items name description item_id)) (\<lambda>_.
      bind_action (conn_commit be) (\<lambda>_.
      bind_action (cursor_close be) (\<lambda>_.
      bind_action (putconn be) (\<lambda>_.
      ret (func_HttpResponse
             (Text (''Item '' @ py_str item_id @ '' updated successfully.'')) 200)))))))))))"

definition update_item :: "backend \<Rightarrow> HttpRequest \<Rightarrow> state \<Rightarrow> HttpResponse \<times> state" where
  "update_item be req s = except_clauses (update_item_try be req s)"

definition delete_item_try :: "backend \<Rightarrow> HttpRequest \<Rightarrow> HttpResponse action" where
  "delete_item_try be req =
     (let item_id = map_of (route_params req) ''id'' in
      bind_action (get_db_connection be) (\<lambda>conn.
      bind_action (conn_cursor be) (\<lambda>cursor.
      bind_action (cursor_execute be (DELETE_items item_id)) (\<lambda>_.
      bind_action (conn_commit be) (\<lambda>_.
      bind_action (cursor_close be) (\<lambda>_.
      bind_action (putconn be) (\<lambda>_.
      ret (func_HttpResponse
             (Text (''Item '' @ py_str item_id @ '' deleted successfully.'')) 200))))))))"

definition delete_item :: "backend \<Rightarrow> HttpRequest \<Rightarrow> state \<Rightarrow> HttpResponse \<times> state" where
  "delete_item be req s = except_clauses (delete_item_try be req s)"

text \<open>The list comprehension of \<^verbatim>\<open>get_all_items\<close>, one dict per fetched tuple.\<close>

fun item_dicts :: "json list list \<Rightarrow> json list action" where
  "item_dicts [] = ret []"
| "item_dicts (item # rest) =
     bind_action (subscript item 0) (\<lambda>i.
     bind_action (subscript item 1) (\<lambda>n.
     bind_action (subscript item 2) (\<lambda>d.
     bind_action (item_dicts rest) (\<lambda>ds.
     ret (JObj [(''id'', i), (''name'', n), (''description'', d)] # ds)))))"

definition get_all_items_try :: "backend \<Rightarrow> HttpRequest \<Rightarrow> HttpResponse action" where
  "get_all_items_try be req =
     bind_action (get_db_connection be) (\<lambda>conn.
     bind_action (conn_cursor be) (\<lambda>cursor.
     bind_action (cursor_execute be SELECT_items) (\<lambda>rs.
     bind_action (cursor_fetchall be rs) (\<lambda>fetched.
     bind_action (cursor_close be) (\<lambda>_.
     bind_action (putconn be) (\<lambda>_.
     if fetched \<noteq> []
     then
       bind_action (item_dicts fetched) (\<lambda>result.
       ret ((func_HttpResponse (Dumps (JArr result)) 200)\<lparr>mimetype := ''application/json''\<rparr>))
     else ret (func_HttpResponse (Text ''No items found.'') 404)))))))"

definition get_all_items :: "backend \<Rightarrow> HttpRequest \<Rightarrow> state \<Rightarrow> HttpResponse \<times> state" where
  "get_all_items be req s = except_clauses (get_all_items_try be req s)"

text \<open>The five routes registered on the app, and the handler each one runs.\<close>

datatype route = POST_item | GET_item | PUT_item | DELETE_item | GET_items

fun route_try :: "route \<Rightarrow> backend \<Rightarrow> HttpRequest \<Rightarrow> HttpResponse action" where
  "route_try POST_item = create_item_try"
| "route_try GET_item = read_item_try"
| "route_try PUT_item = update_item_try"
| "route_try DELETE_item = delete_item_try"
| "route_try GET_items = get_all_items_try"

fun app :: "route \<Rightarrow> backend \<Rightarrow> HttpRequest \<Rightarrow> state \<Rightarrow> HttpResponse \<times> state" where
  "app POST_item = create_item"
| "app GET_item = read_item"
| "app PUT_item = update_item"
| "app DELETE_item = delete_item"
| "app GET_items = get_all_items"

section \<open>Vocabulary of the properties\<close>

text \<open>No call into the driver raises.\<close>

definition quiet :: "backend \<Rightarrow> bool" where
  "quiet be \<longleftrightarrow> fails be = (\<lambda>op. None)"

text \<open>
  The pool never holds and lends more than \<open>maxconn\<close> connections together; the ids of the
  table are distinct (the primary key) and below the next value of the sequence.
\<close>

definition pool_ok :: "state \<Rightarrow> bool" where
  "pool_ok s \<longleftrightarrow> idle (db_pool s) + used (db_pool s) \<le> maxconn (db_pool s)"

definition keys_ok :: "state \<Rightarrow> bool" where
  "keys_ok s \<longleftrightarrow>
     distinct (map fst (items s)) \<and> (\<forall>r\<in>set (items s). fst r < items_id_seq s)"

text \<open>The body is a JSON object whose name and description are both present and truthy.\<close>

definition passes_validation :: "HttpRequest \<Rightarrow> bool" where
  "passes_validation req \<longleftrightarrow>
     (case get_json req of
        Some (JObj kvs) \<Rightarrow>
          (case map_of kvs ''name'' of None \<Rightarrow> False | Some n \<Rightarrow> truthy n) \<and>
          (case map_of kvs ''description'' of None \<Rightarrow> False | Some d \<Rightarrow> truthy d)
      | _ \<Rightarrow> False)"

text \<open>A field of the body is missing, or present with a falsy value such as the empty string.\<close>

definition missing_or_empty :: "(string \<times> json) list \<Rightarrow> string \<Rightarrow> bool" where
  "missing_or_empty kvs k \<longleftrightarrow> (case map_of kvs k of None \<Rightarrow> True | Some v \<Rightarrow> \<not> truthy v)"

text \<open>The handler of the route gets as far as asking the pool for a connection.\<close>

fun reaches_pool :: "route \<Rightarrow> HttpRequest \<Rightarrow> bool" where
  "reaches_pool POST_item req = passes_validation req"
| "reaches_pool PUT_item req = passes_validation req"
| "reaches_pool _ req = True"

text \<open>The JSON object a row is reported as.\<close>

fun item_json :: "row \<Rightarrow> json" where
  "item_json (i, n, d) = JObj [(''id'', JInt i), (''name'', n), (''description'', d)]"

text \<open>The two bodies of an error response.\<close>

definition error_body :: "exn \<Rightarrow> payload" where
  "error_body e =
     (if is_DatabaseError (class_of e) then Text ''Database error occurred.''
      else Text ''An unexpected error occurred.'')"

text \<open>
  The driver calls a handler makes once it has passed its checks, in order, and the first
  exception the driver raises along them.
\<close>

fun driver_calls :: "route \<Rightarrow> dbop list" where
  "driver_calls POST_item = [Getconn, Cursor, Execute, Fetchone, Commit, Close, Putconn]"
| "driver_calls GET_item = [Getconn, Cursor, Execute, Fetchone, Close, Putconn]"
| "driver_calls PUT_item = [Getconn, Cursor, Execute, Commit, Close, Putconn]"
| "driver_calls DELETE_item = [Getconn, Cursor, Execute, Commit, Close, Putconn]"
| "driver_calls GET_items = [Getconn, Cursor, Execute, Fetchall, Close, Putconn]"

fun first_failure :: "backend \<Rightarrow> dbop list \<Rightarrow> exn option" where
  "first_failure be [] = None"
| "first_failure be (c # cs) =
     (case fails be c of Some e \<Rightarrow> Some e | None \<Rightarrow> first_failure be cs)"

text \<open>The storage accepts the path id: it is absent (bound as NULL) or read as an integer.\<close>

definition id_readable :: "backend \<Rightarrow> HttpRequest \<Rightarrow> bool" where
  "id_readable be req \<longleftrightarrow>
     (case map_of (route_params req) ''id'' of None \<Rightarrow> True | Some t \<Rightarrow> integer_in be t \<noteq> None)"

text \<open>
  What one run of a \<^verbatim>\<open>try\<close> block does to the pool: the configuration stays; a block that
  returns has given back what it took; a block that raises after its checks although the pool
  lent it a connection keeps that connection; the bound of the pool is respected.
\<close>

definition try_summary :: "bool \<Rightarrow> backend \<Rightarrow> state \<Rightarrow> HttpResponse result \<Rightarrow> state \<Rightarrow> bool" where
  "try_summary v be s out s' \<longleftrightarrow>
     minconn (db_pool s') = minconn (db_pool s) \<and> maxconn (db_pool s') = maxconn (db_pool s)
     \<and> kwargs (db_pool s') = kwargs (db_pool s)
     \<and> (\<forall>resp. out = Return resp \<longrightarrow>
           status_code resp \<in> {200, 201, 400, 404} \<and> used (db_pool s') = used (db_pool s))
     \<and> (\<forall>e. out = Raise e \<longrightarrow> v \<longrightarrow> fst (get_db_connection be s) = Return ()
           \<longrightarrow> used (db_pool s') = used (db_pool s) + 1)
     \<and> (pool_ok s \<longrightarrow> pool_ok s')"

text \<open>
  What one run does to the table: the keys stay, or rows are filtered out, or one row with
  the next sequence value is appended; the sequence never goes back.
\<close>

definition db_step :: "state \<Rightarrow> state \<Rightarrow> bool" where
  "db_step s s' \<longleftrightarrow> items_id_seq s \<le> items_id_seq s' \<and>
     (map fst (items s') = map fst (items s) \<or> (\<exists>P. items s' = filter P (items s))
      \<or> (\<exists>n d. items s' = items s @ [(items_id_seq s, n, d)] \<and> items_id_seq s < items_id_seq s'))"

text \<open>Requests served one after the other, each with whatever the backend does that time.\<close>

fun serve :: "(route \<times> backend \<times> HttpRequest) list \<Rightarrow> state \<Rightarrow> state" where
  "serve [] s = s"
| "serve ((r, be, req) # rest) s = serve rest (snd (app r be req s))"

text \<open>
  A concrete setting: a storage that reads the texts 1 and 2 as integers, a process started
  with an empty environment on an empty table, and the requests of the scenario
  POST /item, GET /item/1, PUT /item/1, DELETE /item/1.
\<close>

definition ex_backend :: backend where
  "ex_backend = \<lparr>fails = (\<lambda>op. None), integer_in = map_of [(''1'', 1), (''2'', 2)]\<rparr>"

definition ex_state :: state where
  "ex_state = \<lparr>items = [], items_id_seq = 1, txn = None, db_pool = db_pool_init (\<lambda>k. None)\<rparr>"

definition ex_stored :: state where
  "ex_stored = ex_state\<lparr>items := [(1, JStr ''A'', JStr ''B'')], items_id_seq := 2\<rparr>"

definition ex_post :: HttpRequest where
  "ex_post = \<lparr>get_json = Some (JObj [(''name'', JStr ''A''), (''description'', JStr ''B'')]),
              route_params = []\<rparr>"

definition ex_put :: HttpRequest where
  "ex_put = \<lparr>get_json = Some (JObj [(''name'', JStr ''C''), (''description'', JStr ''D'')]),
             route_params = [(''id'', ''1'')]\<rparr>"

definition ex_get :: HttpRequest where
  "ex_get = \<lparr>get_json = None, route_params = [(''id'', ''1'')]\<rparr>"

definition ex_no_name :: HttpRequest where
  "ex_no_name = \<lparr>get_json = Some (JObj [(''description'', JStr ''B'')]),
                 route_params = [(''id'', ''1'')]\<rparr>"

definition ex_broken :: backend where
  "ex_broken = ex_backend\<lparr>fails :=
     (\<lambda>op. if op = Execute
           then Some (Exn OperationalError ''server closed the connection unexpectedly'')
           else None)\<rparr>"

text \<open>
  The same table behind a pool with all ten connections lent out, and an environment that
  sets host and port.
\<close>

definition ex_exhausted :: state where
  "ex_exhausted = ex_stored\<lparr>db_pool := (db_pool ex_stored)\<lparr>idle := 0, used := 10\<rparr>\<rparr>"

definition ex_environ :: "string \<Rightarrow> string option" where
  "ex_environ = map_of [(''DB_HOST'', ''db.example.org''), (''DB_PORT'', ''6543'')]"

section \<open>Unfolding the model\<close>

lemmas action_defs = ret_def throw_def bind_action_def attempt_def

lemmas driver_defs = getconn_def putconn_def get_db_connection_def conn_cursor_def
  cursor_execute_def cursor_fetchone_def cursor_fetchall_def conn_commit_def cursor_close_def
  subscript_def subscript_opt_def body_get_def req_get_json_def bind_id_def working_def

lemmas example_defs = ex_backend_def ex_state_def ex_stored_def ex_post_def ex_put_def
  ex_get_def ex_no_name_def ex_broken_def ex_exhausted_def ex_environ_def
  db_pool_init_def SimpleConnectionPool_def

lemma item_dicts_tuples:
  "item_dicts (map tuple_of rows) s = (Return (map item_json rows), s)"
  by (induction rows) (auto simp: action_defs subscript_def)



subsection \<open>The handlers when no driver call raises and the pool can lend\<close>





lemma list_quiet:
  assumes "quiet be" "0 < available s"
  shows "fst (get_all_items be req s) =
           (if items s = [] then func_HttpResponse (Text ''No items found.'') 404
            else (func_HttpResponse (Dumps (JArr (map item_json (items s)))) 200)
                   \<lparr>mimetype := ''application/json''\<rparr>)"
    and "items (snd (get_all_items be req s)) = items s"
    and "items_id_seq (snd (get_all_items be req s)) = items_id_seq s"
    and "available (snd (get_all_items be req s)) = available s"
  using assms
  by (auto simp add: get_all_items_def get_all_items_try_def except_clauses_def action_defs
      driver_defs available_def quiet_def Let_def item_dicts_tuples)

subsection \<open>Requests the checks do not cover\<close>

lemma body_not_object_is_500:
  assumes "get_json req = Some v" and "\<forall>kvs. v \<noteq> JObj kvs"
  shows "create_item be req s =
           (func_HttpResponse (Text ''An unexpected error occurred.'') 500, s)"
    and "update_item be req s =
           (func_HttpResponse (Text ''An unexpected error occurred.'') 500, s)"
  using assms
  by (cases v;
      simp add: create_item_def create_item_try_def update_item_def update_item_try_def
        except_clauses_def action_defs body_get_def req_get_json_def Let_def)+

lemma rejected_id_is_500:
  assumes "quiet be" and "0 < available s"
    and "map_of (route_params req) ''id'' = Some t" and "integer_in be t = None"
  shows "fst (read_item be req s) = func_HttpResponse (Text ''Database error occurred.'') 500"
    and "fst (delete_item be req s) = func_HttpResponse (Text ''Database error occurred.'') 500"
  using assms
  by (auto simp add: read_item_def read_item_try_def delete_item_def delete_item_try_def
      except_clauses_def action_defs driver_defs available_def quiet_def Let_def)

subsection \<open>The handlers under any backend\<close>

lemma create_try_summary:
  "create_item_try be req s = (out, s') \<Longrightarrow> try_summary (passes_validation req) be s out s'"
  unfolding create_item_try_def
  by (auto simp add: action_defs driver_defs try_summary_def
      pool_ok_def passes_validation_def func_HttpResponse_def Let_def
      split: option.splits if_splits json.splits)

lemma update_try_summary:
  "update_item_try be req s = (out, s') \<Longrightarrow> try_summary (passes_validation req) be s out s'"
proof -
  define item_id where "item_id = map_of (route_params req) ''id''"
  show "update_item_try be req s = (out, s') \<Longrightarrow> try_summary (passes_validation req) be s out s'"
    unfolding update_item_try_def Let_def item_id_def [symmetric]
    by (auto simp add: action_defs driver_defs try_summary_def
      pool_ok_def passes_validation_def func_HttpResponse_def Let_def
      split: option.splits if_splits json.splits)
qed

lemma delete_try_summary:
  "delete_item_try be req s = (out, s') \<Longrightarrow> try_summary True be s out s'"
proof -
  define item_id where "item_id = map_of (route_params req) ''id''"
  show "delete_item_try be req s = (out, s') \<Longrightarrow> try_summary True be s out s'"
    unfolding delete_item_try_def Let_def item_id_def [symmetric]
    by (auto simp add: action_defs driver_defs try_summary_def
      pool_ok_def func_HttpResponse_def Let_def
      split: option.splits if_splits)
qed

lemma read_try_summary:
  "read_item_try be req s = (out, s') \<Longrightarrow> try_summary True be s out s'"
proof -
  define item_id where "item_id = map_of (route_params req) ''id''"
  show "read_item_try be req s = (out, s') \<Longrightarrow> try_summary True be s out s'"
    unfolding read_item_try_def Let_def item_id_def [symmetric]
    by (auto simp add: action_defs driver_defs try_summary_def
      pool_ok_def func_HttpResponse_def Let_def
      split: option.splits if_splits list.splits)
qed

lemma list_try_summary:
  "get_all_items_try be req s = (out, s') \<Longrightarrow> try_summary True be s out s'"
  unfolding get_all_items_try_def
  by (auto simp add: action_defs driver_defs try_summary_def
      pool_ok_def func_HttpResponse_def Let_def item_dicts_tuples
      split: option.splits if_splits)

lemma keys_after_update:
  "map fst (map (\<lambda>r. if Some (fst r) = k then (fst r, n, d) else r) rows) = map fst rows"
  by (induction rows) auto

lemma keys_ok_intro:
  fixes rows rows' :: "row list"
  assumes "distinct (map fst rows)" and "\<forall>r\<in>set rows. fst r < q" and "q \<le> q'"
    and "map fst rows' = map fst rows \<or> (\<exists>P. rows' = filter P rows)
       \<or> (\<exists>n d. rows' = rows @ [(q, n, d)] \<and> q < q')"
  shows "distinct (map fst rows') \<and> (\<forall>r\<in>set rows'. fst r < q')"
  using assms(4)
proof (elim disjE exE conjE)
  assume b: "map fst rows' = map fst rows"
  have "\<forall>i\<in>set (map fst rows'). i < q" using assms(2) by (simp add: b)
  then have "\<forall>r\<in>set rows'. fst r < q'" using assms(3) by fastforce
  moreover have "distinct (map fst rows')" using assms(1) by (simp add: b)
  ultimately show ?thesis by simp
next
  fix P assume "rows' = filter P rows"
  with assms(1-3) show ?thesis by (fastforce simp: distinct_map_filter)
next
  fix n d assume "rows' = rows @ [(q, n, d)]" "q < q'"
  with assms(1-3) show ?thesis by fastforce
qed

lemma db_step_keys_ok: "db_step s s' \<Longrightarrow> keys_ok s \<Longrightarrow> keys_ok s'"
  unfolding keys_ok_def db_step_def
  using keys_ok_intro [of "items s" "items_id_seq s" "items_id_seq s'" "items s'"] by blast

lemma create_db_step: "create_item_try be req s = (out, s') \<Longrightarrow> db_step s s'"
  unfolding create_item_try_def
  by (auto simp add: action_defs driver_defs db_step_def Let_def
      split: option.splits if_splits json.splits)

lemma read_db_step: "read_item_try be req s = (out, s') \<Longrightarrow> db_step s s'"
proof -
  define item_id where "item_id = map_of (route_params req) ''id''"
  show "read_item_try be req s = (out, s') \<Longrightarrow> db_step s s'"
    unfolding read_item_try_def Let_def item_id_def [symmetric]
    by (auto simp add: action_defs driver_defs db_step_def Let_def
      split: option.splits if_splits list.splits)
qed

lemma update_db_step: "update_item_try be req s = (out, s') \<Longrightarrow> db_step s s'"
proof -
  define item_id where "item_id = map_of (route_params req) ''id''"
  show "update_item_try be req s = (out, s') \<Longrightarrow> db_step s s'"
    unfolding update_item_try_def Let_def item_id_def [symmetric]
    by (auto simp add: action_defs driver_defs db_step_def Let_def keys_after_update
      split: option.splits if_splits json.splits)
qed

lemma delete_db_step: "delete_item_try be req s = (out, s') \<Longrightarrow> db_step s s'"
proof -
  define item_id where "item_id = map_of (route_params req) ''id''"
  show "delete_item_try be req s = (out, s') \<Longrightarrow> db_step s s'"
    unfolding delete_item_try_def Let_def item_id_def [symmetric]
    by (auto simp add: action_defs driver_defs db_step_def Let_def
      split: option.splits if_splits)
qed

lemma list_db_step: "get_all_items_try be req s = (out, s') \<Longrightarrow> db_step s s'"
  unfolding get_all_items_try_def
  by (auto simp add: action_defs driver_defs db_step_def Let_def item_dicts_tuples
      split: option.splits if_splits)

lemma first_failure_create:
  assumes "passes_validation req" and "0 < available s"
    and "first_failure be (driver_calls POST_item) = Some e"
  shows "fst (create_item_try be req s) = Raise e"
  using assms
  by (auto simp add: passes_validation_def available_def split: option.splits json.splits)
    (simp_all add: create_item_try_def action_defs driver_defs Let_def)

lemma first_failure_read:
  assumes "0 < available s" and "id_readable be req"
    and "first_failure be (driver_calls GET_item) = Some e"
  shows "fst (read_item_try be req s) = Raise e"
  using assms
  by (auto simp add: id_readable_def available_def split: option.splits
      simp del: map_of_eq_None_iff)
    (simp_all add: read_item_try_def action_defs driver_defs Let_def)

lemma first_failure_update:
  assumes "passes_validation req" and "0 < available s" and "id_readable be req"
    and "first_failure be (driver_calls PUT_item) = Some e"
  shows "fst (update_item_try be req s) = Raise e"
  using assms
  by (auto simp add: passes_validation_def id_readable_def available_def
      split: option.splits json.splits simp del: map_of_eq_None_iff)
    (simp_all add: update_item_try_def action_defs driver_defs Let_def)

lemma first_failure_delete:
  assumes "0 < available s" and "id_readable be req"
    and "first_failure be (driver_calls DELETE_item) = Some e"
  shows "fst (delete_item_try be req s) = Raise e"
  using assms
  by (auto simp add: id_readable_def available_def split: option.splits
      simp del: map_of_eq_None_iff)
    (simp_all add: delete_item_try_def action_defs driver_defs Let_def)

lemma first_failure_list:
  assumes "0 < available s"
    and "first_failure be (driver_calls GET_items) = Some e"
  shows "fst (get_all_items_try be req s) = Raise e"
  using assms
  by (auto simp add: available_def split: option.splits)
    (simp_all add: get_all_items_try_def action_defs driver_defs Let_def)

lemma route_try_summary:
  "route_try r be req s = (out, s') \<Longrightarrow> try_summary (reaches_pool r req) be s out s'"
  by (cases r)
    (simp_all add: create_try_summary read_try_summary update_try_summary
      delete_try_summary list_try_summary)

lemma route_db_step: "route_try r be req s = (out, s') \<Longrightarrow> db_step s s'"
  by (cases r)
    (simp_all add: create_db_step read_db_step update_db_step delete_db_step list_db_step)

lemma app_except: "app r be req s = except_clauses (route_try r be req s)"
  by (cases r)
    (simp_all add: create_item_def read_item_def update_item_def delete_item_def
      get_all_items_def)

lemma snd_app: "snd (app r be req s) = snd (route_try r be req s)"
  by (simp add: app_except except_clauses_def split: prod.splits result.splits)

lemma app_raise:
  "route_try r be req s = (Raise e, s') \<Longrightarrow>
   app r be req s = (func_HttpResponse (error_body e) 500, s')"
  by (simp add: app_except except_clauses_def error_body_def)

lemma app_return:
  "route_try r be req s = (Return resp, s') \<Longrightarrow> app r be req s = (resp, s')"
  by (simp add: app_except except_clauses_def)

lemma route_first_failure:
  assumes "reaches_pool r req" and "0 < available s" and "id_readable be req"
    and "first_failure be (driver_calls r) = Some e"
  shows "fst (route_try r be req s) = Raise e"
  using assms
  by (cases r)
    (simp_all add: first_failure_create first_failure_read first_failure_update
      first_failure_delete first_failure_list del: first_failure.simps driver_calls.simps)

subsection \<open>Invariants of every request\<close>

lemma app_keeps_keys: "keys_ok s \<Longrightarrow> keys_ok (snd (app r be req s))"
  using route_db_step [of r be req s "fst (route_try r be req s)" "snd (route_try r be req s)"]
  by (simp add: snd_app db_step_keys_ok)

lemma app_keeps_pool: "pool_ok s \<Longrightarrow> pool_ok (snd (app r be req s))"
  using route_try_summary [of r be req s "fst (route_try r be req s)" "snd (route_try r be req s)"]
  by (simp add: snd_app try_summary_def)

lemma serve_keeps_invariants:
  "pool_ok s \<Longrightarrow> keys_ok s \<Longrightarrow> pool_ok (serve reqs s) \<and> keys_ok (serve reqs s)"
proof (induction reqs arbitrary: s)
  case Nil
  then show ?case by simp
next
  case (Cons x reqs)
  obtain r be req where x: "x = (r, be, req)" by (cases x)
  from Cons.prems have "pool_ok (snd (app r be req s))" and "keys_ok (snd (app r be req s))"
    by (simp_all add: app_keeps_pool app_keeps_keys)
  then show ?case using Cons.IH by (simp add: x)
qed

lemma startup_invariants:
  "pool_ok (s\<lparr>db_pool := db_pool_init environ\<rparr>)"
  "available (s\<lparr>db_pool := db_pool_init environ\<rparr>) = 10"
  by (simp_all add: pool_ok_def available_def db_pool_init_def SimpleConnectionPool_def)

section \<open>The claims\<close>



text \<open>
  Claim C2. When the JSON body is an object in which \<open>name\<close> or \<open>description\<close> is missing
  or empty (or falsy in any other way), \<open>create_item\<close> and \<open>update_item\<close> both answer 400 and
  return the state exactly as it was: no insert, no update, no connection taken. This holds
  whatever the driver would have done.
\<close>

theorem missing_field_is_400:
  assumes "get_json req = Some (JObj kvs)"
    and "missing_or_empty kvs ''name'' \<or> missing_or_empty kvs ''description''"
  shows "create_item be req s = (func_HttpResponse (Text missing_fields) 400, s)
       \<and> update_item be req s = (func_HttpResponse (Text missing_fields) 400, s)"
  using assms
  by (auto simp add: create_item_def create_item_try_def update_item_def update_item_try_def
      except_clauses_def action_defs body_get_def req_get_json_def missing_or_empty_def Let_def
      split: option.splits)

theorem missing_field_is_400_witness:
  "create_item ex_backend ex_no_name ex_stored = (func_HttpResponse (Text missing_fields) 400, ex_stored)
   \<and> update_item ex_backend ex_no_name ex_stored = (func_HttpResponse (Text missing_fields) 400, ex_stored)"
  using missing_field_is_400 [of ex_no_name "[(''description'', JStr ''B'')]" ex_backend ex_stored]
  by (simp add: example_defs missing_or_empty_def)







text \<open>
  Claim C6. With a pool that can lend and no driver call raising, \<open>get_all_items\<close> answers 404
  \<^verbatim>\<open>No items found.\<close> exactly when the table is empty; otherwise it answers 200 with a JSON
  array holding, in table order, one \<^verbatim>\<open>{id, name, description}\<close> per stored row with the
  stored values. The table is left as it was.
\<close>

theorem list_all_or_404:
  assumes "quiet be" and "0 < available s"
  shows "(fst (get_all_items be req s) = func_HttpResponse (Text ''No items found.'') 404
            \<longleftrightarrow> items s = [])
       \<and> (status_code (fst (get_all_items be req s)) = 404 \<longleftrightarrow> items s = [])
       \<and> (items s \<noteq> [] \<longrightarrow>
            fst (get_all_items be req s) =
              (func_HttpResponse (Dumps (JArr (map item_json (items s)))) 200)
                 \<lparr>mimetype := ''application/json''\<rparr>)
       \<and> length (map item_json (items s)) = length (items s)
       \<and> items (snd (get_all_items be req s)) = items s"
  using list_quiet(1,2) [OF assms, of req]
  by (simp add: func_HttpResponse_def)

theorem list_all_or_404_witness:
  "fst (get_all_items ex_backend ex_get ex_state) = func_HttpResponse (Text ''No items found.'') 404
   \<and> fst (get_all_items ex_backend ex_get ex_stored) =
       (func_HttpResponse (Dumps (JArr [JObj [(''id'', JInt 1), (''name'', JStr ''A''),
           (''description'', JStr ''B'')]])) 200)\<lparr>mimetype := ''application/json''\<rparr>"
  using list_all_or_404 [of ex_backend ex_state ex_get]
    list_all_or_404 [of ex_backend ex_stored ex_get]
  by (simp add: example_defs quiet_def available_def)

text \<open>
  Claim C7. For each of the five routes and every backend, request and state, \<open>app\<close> returns
  a response; no exception is left. When the \<^verbatim>\<open>try\<close> block raises \<open>e\<close>, the response is 500 with
  the body \<^verbatim>\<open>Database error occurred.\<close> if \<open>e\<close> is a \<^verbatim>\<open>psycopg2.DatabaseError\<close> and
  \<^verbatim>\<open>An unexpected error occurred.\<close> for every other exception; when it returns, the response
  is the one returned and its status is not 500. In particular the first exception the driver
  raises along the handler's calls is answered this way. A 500 carries one of the two fixed
  bodies, and the body does not depend on the message of the exception.
\<close>

theorem failures_become_500:
  "(\<forall>e s'. route_try r be req s = (Raise e, s') \<longrightarrow>
       app r be req s = (func_HttpResponse (error_body e) 500, s'))
   \<and> (\<forall>resp s'. route_try r be req s = (Return resp, s') \<longrightarrow>
       app r be req s = (resp, s') \<and> status_code resp \<in> {200, 201, 400, 404})
   \<and> (reaches_pool r req \<and> 0 < available s \<and> id_readable be req
        \<and> first_failure be (driver_calls r) = Some e' \<longrightarrow>
       fst (app r be req s) = func_HttpResponse (error_body e') 500)
   \<and> (status_code (fst (app r be req s)) = 500 \<longrightarrow>
       body (fst (app r be req s)) = Text ''Database error occurred.''
       \<or> body (fst (app r be req s)) = Text ''An unexpected error occurred.'')
   \<and> error_body (Exn c m) = error_body (Exn c m')"
proof (intro conjI allI impI)
  fix e s' assume "route_try r be req s = (Raise e, s')"
  then show "app r be req s = (func_HttpResponse (error_body e) 500, s')"
    by (rule app_raise)
next
  fix resp s' assume a: "route_try r be req s = (Return resp, s')"
  then show "app r be req s = (resp, s')" by (rule app_return)
  from route_try_summary [OF a] show "status_code resp \<in> {200, 201, 400, 404}"
    by (simp add: try_summary_def)
next
  assume "reaches_pool r req \<and> 0 < available s \<and> id_readable be req
        \<and> first_failure be (driver_calls r) = Some e'"
  then have "fst (route_try r be req s) = Raise e'"
    by (simp add: route_first_failure)
  then have "route_try r be req s = (Raise e', snd (route_try r be req s))"
    by (simp add: prod_eq_iff)
  from app_raise [OF this] show "fst (app r be req s) = func_HttpResponse (error_body e') 500"
    by simp
next
  assume a: "status_code (fst (app r be req s)) = 500"
  obtain out s' where t: "route_try r be req s = (out, s')" by (cases "route_try r be req s")
  show "body (fst (app r be req s)) = Text ''Database error occurred.''
       \<or> body (fst (app r be req s)) = Text ''An unexpected error occurred.''"
  proof (cases out)
    case (Return resp)
    with route_try_summary [OF t] app_return [of r be req s resp s'] t a show ?thesis
      by (simp add: try_summary_def)
  next
    case (Raise e)
    with app_raise [of r be req s e s'] t show ?thesis
      by (simp add: error_body_def func_HttpResponse_def)
  qed
next
  show "error_body (Exn c m) = error_body (Exn c m')"
    by (simp add: error_body_def)
qed

theorem failures_become_500_witness:
  "fst (app GET_item ex_broken ex_get ex_stored) =
      func_HttpResponse (Text ''Database error occurred.'') 500
   \<and> fst (app GET_items ex_backend ex_get ex_exhausted) =
      func_HttpResponse (Text ''An unexpected error occurred.'') 500"
proof -
  have "route_try GET_items ex_backend ex_get ex_exhausted =
          (Raise (Exn PoolError ''connection pool exhausted''), ex_exhausted)"
    by (simp add: get_all_items_try_def action_defs driver_defs example_defs)
  with failures_become_500 [of GET_items ex_backend ex_get ex_exhausted]
  have "fst (app GET_items ex_backend ex_get ex_exhausted) =
          func_HttpResponse (Text ''An unexpected error occurred.'') 500"
    by (simp add: error_body_def)
  moreover have "fst (app GET_item ex_broken ex_get ex_stored) =
          func_HttpResponse (Text ''Database error occurred.'') 500"
    using failures_become_500 [of GET_item ex_broken ex_get ex_stored
        "Exn OperationalError ''server closed the connection unexpectedly''"]
    by (simp add: example_defs available_def id_readable_def error_body_def)
  ultimately show ?thesis by simp
qed

text \<open>
  Claim C8. In a pool within its bound: when a request is answered with anything but 500, the
  number of connections the pool can still lend is what it was before the request; when the
  handler got its connection from the pool and the request is answered 500, that number is
  one less than before, the connection never having been put back.
\<close>

theorem leak_on_error:
  assumes "pool_ok s"
  shows "(status_code (fst (app r be req s)) \<noteq> 500 \<longrightarrow>
            available (snd (app r be req s)) = available s)
       \<and> (status_code (fst (app r be req s)) = 500 \<and> reaches_pool r req
            \<and> fst (get_db_connection be s) = Return () \<longrightarrow>
            available (snd (app r be req s)) + 1 = available s)"
proof -
  obtain out s' where t: "route_try r be req s = (out, s')" by (cases "route_try r be req s")
  note sm = route_try_summary [OF t]
  show ?thesis
  proof (cases out)
    case (Return resp)
    with sm t app_return [of r be req s resp s'] show ?thesis
      by (auto simp add: try_summary_def available_def)
  next
    case (Raise e)
    have ok: "pool_ok s'" using sm assms by (simp add: try_summary_def)
    from Raise t app_raise [of r be req s e s']
    have a: "app r be req s = (func_HttpResponse (error_body e) 500, s')" by simp
    have "available s' + 1 = available s"
      if "reaches_pool r req" and "fst (get_db_connection be s) = Return ()"
    proof -
      from sm Raise that have "used (db_pool s') = used (db_pool s) + 1"
        by (simp add: try_summary_def)
      moreover from sm have "maxconn (db_pool s') = maxconn (db_pool s)"
        by (simp add: try_summary_def)
      ultimately show ?thesis using ok by (simp add: available_def pool_ok_def)
    qed
    with a show ?thesis by (simp add: func_HttpResponse_def)
  qed
qed

theorem leak_on_error_witness:
  "available ex_stored = 10
   \<and> status_code (fst (app GET_item ex_broken ex_get ex_stored)) = 500
   \<and> available (snd (app GET_item ex_broken ex_get ex_stored)) = 9
   \<and> status_code (fst (app GET_item ex_backend ex_get ex_stored)) = 200
   \<and> available (snd (app GET_item ex_backend ex_get ex_stored)) = 10"
proof -
  have s: "status_code (fst (app GET_item ex_broken ex_get ex_stored)) = 500"
    "status_code (fst (app GET_item ex_backend ex_get ex_stored)) = 200"
    by (simp_all add: read_item_def read_item_try_def except_clauses_def action_defs
        driver_defs example_defs func_HttpResponse_def)
  have p: "pool_ok ex_stored" "available ex_stored = 10"
    "fst (get_db_connection ex_broken ex_stored) = Return ()"
    by (simp_all add: pool_ok_def available_def example_defs action_defs driver_defs)
  from leak_on_error [OF p(1), of GET_item ex_broken ex_get] s(1) p(2,3)
  have "available (snd (app GET_item ex_broken ex_get ex_stored)) = 9" by simp
  moreover from leak_on_error [OF p(1), of GET_item ex_backend ex_get] s(2) p(2)
  have "available (snd (app GET_item ex_backend ex_get ex_stored)) = 10" by simp
  ultimately show ?thesis using s p(2) by simp
qed

text \<open>
  Claim C9. The pool is built from the process environment: host, database, user and
  password are the values of \<^verbatim>\<open>DB_HOST\<close>, \<^verbatim>\<open>DB_NAME\<close>, \<^verbatim>\<open>DB_USER\<close>, \<^verbatim>\<open>DB_PASSWORD\<close>, and the
  port is the value of \<^verbatim>\<open>DB_PORT\<close>, or 5432 when that is unset. The pool constructor takes
  its minimum and maximum size as arguments; the program passes 1 and 10. The maximum is
  enforced: asking an exhausted pool raises, and no request takes the pool beyond its bound.
  No request changes the sizes or the connection arguments: they are fixed at startup.
\<close>

theorem pool_configuration:
  "minconn (db_pool_init environ) = 1 \<and> maxconn (db_pool_init environ) = 10
   \<and> kwargs (db_pool_init environ) = DB_CONFIG environ
   \<and> map_of (DB_CONFIG environ) ''host'' = Some (environ ''DB_HOST'')
   \<and> map_of (DB_CONFIG environ) ''database'' = Some (environ ''DB_NAME'')
   \<and> map_of (DB_CONFIG environ) ''user'' = Some (environ ''DB_USER'')
   \<and> map_of (DB_CONFIG environ) ''password'' = Some (environ ''DB_PASSWORD'')
   \<and> map_of (DB_CONFIG environ) ''port'' =
        Some (Some (case environ ''DB_PORT'' of None \<Rightarrow> ''5432'' | Some p \<Rightarrow> p))
   \<and> (environ ''DB_PORT'' = None \<longrightarrow> map_of (DB_CONFIG environ) ''port'' = Some (Some ''5432''))
   \<and> minconn (SimpleConnectionPool lo hi kw) = lo
   \<and> maxconn (SimpleConnectionPool lo hi kw) = hi
   \<and> (idle (db_pool s) = 0 \<and> used (db_pool s) = maxconn (db_pool s) \<and> fails be Getconn = None
        \<longrightarrow> getconn be s = (Raise (Exn PoolError ''connection pool exhausted''), s))
   \<and> (pool_ok s \<longrightarrow> pool_ok (snd (app r be req s)))
   \<and> minconn (db_pool (snd (app r be req s))) = minconn (db_pool s)
   \<and> maxconn (db_pool (snd (app r be req s))) = maxconn (db_pool s)
   \<and> kwargs (db_pool (snd (app r be req s))) = kwargs (db_pool s)"
proof -
  have "try_summary (reaches_pool r req) be s (fst (route_try r be req s))
          (snd (route_try r be req s))"
    by (rule route_try_summary) simp
  then have "minconn (db_pool (snd (app r be req s))) = minconn (db_pool s)
      \<and> maxconn (db_pool (snd (app r be req s))) = maxconn (db_pool s)
      \<and> kwargs (db_pool (snd (app r be req s))) = kwargs (db_pool s)"
    by (simp add: snd_app try_summary_def)
  moreover have "idle (db_pool s) = 0 \<and> used (db_pool s) = maxconn (db_pool s)
        \<and> fails be Getconn = None
        \<longrightarrow> getconn be s = (Raise (Exn PoolError ''connection pool exhausted''), s)"
    by (simp add: getconn_def attempt_def)
  ultimately show ?thesis
    using app_keeps_pool [of s r be req]
    by (simp add: db_pool_init_def SimpleConnectionPool_def DB_CONFIG_def os_getenv_def
        os_getenv_default_def split: option.splits)
qed

theorem pool_configuration_witness:
  "map_of (DB_CONFIG (\<lambda>k. None)) ''port'' = Some (Some ''5432'')
   \<and> map_of (DB_CONFIG ex_environ) ''port'' = Some (Some ''6543'')
   \<and> map_of (DB_CONFIG ex_environ) ''host'' = Some (Some ''db.example.org'')
   \<and> pool_ok (snd (app GET_item ex_broken ex_get ex_stored))
   \<and> getconn ex_backend ex_exhausted =
        (Raise (Exn PoolError ''connection pool exhausted''), ex_exhausted)"
  using pool_configuration [of "\<lambda>k. None" 1 10 "[]" ex_exhausted ex_backend GET_item ex_get]
    pool_configuration [of ex_environ 1 10 "[]" ex_stored ex_broken GET_item ex_get]
  by (simp add: example_defs pool_ok_def)

text \<open>
  Claim C10. When the body is not valid JSON, \<open>create_item\<close> and \<open>update_item\<close> answer 500
  \<^verbatim>\<open>An unexpected error occurred.\<close>, not 400: decoding the body raises before the presence
  check runs. The state is returned exactly as it was.
\<close>

theorem invalid_json_is_500:
  assumes "get_json req = None"
  shows "create_item be req s =
           (func_HttpResponse (Text ''An unexpected error occurred.'') 500, s)
       \<and> update_item be req s =
           (func_HttpResponse (Text ''An unexpected error occurred.'') 500, s)"
  using assms
  by (simp add: create_item_def create_item_try_def update_item_def update_item_try_def
      except_clauses_def action_defs req_get_json_def Let_def)

theorem invalid_json_is_500_witness:
  "create_item ex_backend ex_get ex_stored =
     (func_HttpResponse (Text ''An unexpected error occurred.'') 500, ex_stored)
   \<and> update_item ex_backend ex_get ex_stored =
     (func_HttpResponse (Text ''An unexpected error occurred.'') 500, ex_stored)"
  using invalid_json_is_500 [of ex_get ex_backend ex_stored]
  by (simp add: example_defs)

end
